theory Spec2Isabelle
  imports Complex_Main "HOL-Library.Sublist"
begin

section \<open>Python values and strings\<close>

text \<open>
  A Python \<open>str\<close> is modelled as a \<open>string\<close>: each \<open>char\<close> stands for one code point
  below 256. A Python \<open>float\<close> is modelled as a \<open>real\<close>: rounding is not modelled.
\<close>

datatype py_error = KeyError | JSONDecodeError | GraphRecursionError | InvalidGraph

datatype pyval = PyNone | PyStr string | PyInt int | PyFloat real | PyBool bool

text \<open>\<open>str.isspace\<close> on one code point below 256.\<close>

definition isspace :: "char \<Rightarrow> bool" where
  "isspace c = (of_char c \<in> {9, 10, 11, 12, 13, 28, 29, 30, 31, 32, 133, 160 :: nat})"

text \<open>\<open>str.lower\<close> on one code point below 256: A-Z and the Latin-1 capitals move by 32.\<close>

definition lower_char :: "char \<Rightarrow> char" where
  "lower_char c =
     (let n = (of_char c :: nat)
      in if (65 \<le> n \<and> n \<le> 90) \<or> (192 \<le> n \<and> n \<le> 222 \<and> n \<noteq> 215)
         then char_of (n + 32) else c)"

definition lower :: "string \<Rightarrow> string" where
  "lower s = map lower_char s"

text \<open>\<open>sub in s\<close> for strings.\<close>

fun str_contains :: "string \<Rightarrow> string \<Rightarrow> bool" where
  "str_contains [] sub = (sub = [])"
| "str_contains (c # cs) sub = (prefix sub (c # cs) \<or> str_contains cs sub)"

text \<open>\<open>s.count(sub)\<close>: the number of non-overlapping occurrences, scanning from the left.\<close>

function str_count :: "string \<Rightarrow> string \<Rightarrow> nat" where
  "str_count [] sub = (if sub = [] then 1 else 0)"
| "str_count (c # cs) sub =
     (if sub = [] then length (c # cs) + 1
      else if prefix sub (c # cs) then 1 + str_count (drop (length sub) (c # cs)) sub
      else str_count cs sub)"
  by pat_completeness auto
termination
  by (relation "measure (\<lambda>(s, sub). length s)") auto

text \<open>\<open>s.split()\<close>: the maximal runs of non-whitespace characters, in order.\<close>

fun split_from :: "string \<Rightarrow> string \<Rightarrow> string list" where
  "split_from cur [] = (if cur = [] then [] else [cur])"
| "split_from cur (c # cs) =
     (if isspace c then (if cur = [] then split_from [] cs else cur # split_from [] cs)
      else split_from (cur @ [c]) cs)"

definition split :: "string \<Rightarrow> string list" where
  "split s = split_from [] s"

text \<open>\<open>sep.join(parts)\<close>.\<close>

fun join :: "string \<Rightarrow> string list \<Rightarrow> string" where
  "join sep [] = []"
| "join sep [x] = x"
| "join sep (x # y # ys) = x @ sep @ join sep (y # ys)"

text \<open>\<open>str(n)\<close> for a non-negative integer: its decimal digits.\<close>

function str_nat :: "nat \<Rightarrow> string" where
  "str_nat n = (if n < 10 then [char_of (48 + n)] else str_nat (n div 10) @ [char_of (48 + n mod 10)])"
  by pat_completeness auto
termination
  by (relation "measure id") auto

declare str_nat.simps [simp del]

text \<open>\<open>sum(xs)\<close>: a left fold from 0.\<close>

definition py_sum :: "'a::monoid_add list \<Rightarrow> 'a" where
  "py_sum xs = foldl (+) 0 xs"

section \<open>The shared state (app/graph/state.py)\<close>

text \<open>
  Every dict of the program is a record whose fields are options: \<open>None\<close> is a key that
  is absent. \<open>GraphState\<close> is declared with \<open>total=False\<close>, so every key may be absent.
  A stage's partial update is the same record: \<open>None\<close> is a key the update does not carry.
\<close>

record evidence =
  doc_id :: "string option"
  heading :: "string option"
  item_text :: "string option"
  source_uri :: "string option"
  security_tags :: "string list option"
  score :: "real option"

record span =
  span_start :: "int option"
  span_end :: "int option"
  entropy :: "real option"

record uncertainty_summary =
  overall :: "real option"
  spans :: "span list option"

record validation_report =
  faithful :: "bool option"
  checks :: "string list option"

type_synonym audit_record = "(string \<times> pyval) list"

record graph_state =
  user_query :: "string option"
  intent :: "string option"
  retrieved_evidence :: "evidence list option"
  draft_answer :: "string option"
  citations :: "string list option"
  uncertainty :: "uncertainty_summary option"
  validation_reports :: "validation_report option"
  decision :: "string option"
  audit_trail :: "audit_record list option"

definition empty_state :: graph_state where
  "empty_state = \<lparr>user_query = None, intent = None, retrieved_evidence = None,
     draft_answer = None, citations = None, uncertainty = None,
     validation_reports = None, decision = None, audit_trail = None\<rparr>"

text \<open>\<open>state.update(updates)\<close>: every key of the update overwrites the state's.\<close>

definition override :: "'a option \<Rightarrow> 'a option \<Rightarrow> 'a option" where
  "override old new = (case new of None \<Rightarrow> old | Some v \<Rightarrow> Some v)"

definition state_update :: "graph_state \<Rightarrow> graph_state \<Rightarrow> graph_state" where
  "state_update s u =
     \<lparr>user_query = override (user_query s) (user_query u),
      intent = override (intent s) (intent u),
      retrieved_evidence = override (retrieved_evidence s) (retrieved_evidence u),
      draft_answer = override (draft_answer s) (draft_answer u),
      citations = override (citations s) (citations u),
      uncertainty = override (uncertainty s) (uncertainty u),
      validation_reports = override (validation_reports s) (validation_reports u),
      decision = override (decision s) (decision u),
      audit_trail = override (audit_trail s) (audit_trail u)\<rparr>"

text \<open>\<open>state.get(key) or default\<close> and \<open>state.get(key, default)\<close> on an optional field.\<close>

definition get_or :: "'a option \<Rightarrow> 'a \<Rightarrow> 'a" where
  "get_or v d = (case v of None \<Rightarrow> d | Some x \<Rightarrow> x)"

section \<open>Router (app/graph/nodes/router.py)\<close>

text \<open>
  Every node reads the audit list of the state, appends its record to that list in place
  and returns the list under \<open>audit_trail\<close> in its update. The model returns the
  appended list in the update; merged into the state, the result is the same.
\<close>

definition router_node :: "graph_state \<Rightarrow> graph_state" where
  "router_node state =
     (let q = lower (get_or (user_query state) []);
          intent0 = ''lookup'';
          intent1 = (if list_ex (\<lambda>k. str_contains q k)
                          [''why'', ''how'', ''compare'', ''design'', ''tradeoff'']
                     then ''synthesis'' else intent0);
          intent2 = (if list_ex (\<lambda>k. str_contains q k)
                          [''policy'', ''gdpr'', ''security'', ''compliance'']
                     then ''policy'' else intent1);
          audit = get_or (audit_trail state) []
                    @ [[(''node'', PyStr ''router''), (''intent'', PyStr intent2)]]
      in empty_state\<lparr>intent := Some intent2, audit_trail := Some audit\<rparr>)"

section \<open>Retriever (app/graph/nodes/retriever.py)\<close>

definition CORPUS :: "evidence list" where
  "CORPUS =
     [\<lparr>doc_id = Some ''doc-1'',
       heading = Some ''UDA Overview'',
       item_text = Some ''Universal Data Assistant provides precise, cited answers using RAG.'',
       source_uri = Some ''internal://docs/uda/overview.md'',
       security_tags = Some [''public''],
       score = None\<rparr>,
      \<lparr>doc_id = Some ''doc-2'',
       heading = Some ''Uncertainty Handling'',
       item_text = Some ''UDA tracks token-level uncertainty via logprob entropy and span aggregation.'',
       source_uri = Some ''internal://docs/uda/uncertainty.md'',
       security_tags = Some [''public''],
       score = None\<rparr>]"

text \<open>
  \<open>sum(item["text"].lower().count(t) for t in terms)\<close>: the generator reads
  \<open>item["text"]\<close> once per term, so a document without a text raises \<open>KeyError\<close>
  only when there is a term.
\<close>

definition score_item :: "string list \<Rightarrow> evidence \<Rightarrow> py_error + nat" where
  "score_item terms item =
     (if terms = [] then Inr 0
      else case item_text item of
             None \<Rightarrow> Inl KeyError
           | Some t \<Rightarrow> Inr (py_sum (map (\<lambda>tm. str_count (lower t) tm) terms)))"

text \<open>The loop over the corpus that fills \<open>scored\<close>.\<close>

fun score_loop ::
  "string list \<Rightarrow> evidence list \<Rightarrow> (nat \<times> evidence) list \<Rightarrow> py_error + (nat \<times> evidence) list" where
  "score_loop terms [] scored = Inr scored"
| "score_loop terms (item # rest) scored =
     (case score_item terms item of
        Inl e \<Rightarrow> Inl e
      | Inr sc \<Rightarrow> score_loop terms rest (if sc > 0 then scored @ [(sc, item)] else scored))"

text \<open>
  \<open>list.sort(reverse=True, key=f)\<close>: the list is reversed, sorted stably by ascending
  key, and reversed again.
\<close>

definition sort_reverse :: "('a \<Rightarrow> nat) \<Rightarrow> 'a list \<Rightarrow> 'a list" where
  "sort_reverse f xs = rev (sort_key f (rev xs))"

text \<open>The corpus is the module's global \<open>CORPUS\<close>; here it is the first argument.\<close>

definition simple_keyword_match ::
  "evidence list \<Rightarrow> string \<Rightarrow> nat \<Rightarrow> py_error + evidence list" where
  "simple_keyword_match corpus query k =
     (if query = [] then Inr []
      else let terms = filter (\<lambda>t. length t > 2) (split (lower query))
           in case score_loop terms corpus [] of
                Inl e \<Rightarrow> Inl e
              | Inr scored \<Rightarrow>
                  Inr (map (\<lambda>(sc, item). item\<lparr>score := Some (real sc)\<rparr>)
                         (take k (sort_reverse fst scored))))"

definition retriever_node :: "graph_state \<Rightarrow> py_error + graph_state" where
  "retriever_node state =
     (let query = get_or (user_query state) []
      in case simple_keyword_match CORPUS query 5 of
           Inl e \<Rightarrow> Inl e
         | Inr ev \<Rightarrow>
             Inr (empty_state
                    \<lparr>retrieved_evidence := Some ev,
                     audit_trail := Some (get_or (audit_trail state) []
                       @ [[(''node'', PyStr ''retriever''), (''hits'', PyInt (int (length ev)))]])\<rparr>))"

section \<open>Ranker (app/graph/nodes/ranker.py)\<close>

definition ranker_node :: "graph_state \<Rightarrow> graph_state" where
  "ranker_node state =
     (let ev = get_or (retrieved_evidence state) []
      in empty_state
           \<lparr>retrieved_evidence := Some ev,
            audit_trail := Some (get_or (audit_trail state) []
              @ [[(''node'', PyStr ''ranker''), (''kept'', PyInt (int (length ev)))]])\<rparr>)"

section \<open>Citations (app/utils/citations.py) and answerer (app/graph/nodes/answerer.py)\<close>

text \<open>
  \<open>e.get("source_uri") or e.get("doc_id", "unknown")\<close>: an empty \<open>source_uri\<close> is falsy,
  like an absent one. \<open>if heading:\<close> skips an empty heading, like an absent one.
\<close>

definition citation :: "nat \<Rightarrow> evidence \<Rightarrow> string" where
  "citation idx e =
     (let src = (case source_uri e of
                   None \<Rightarrow> get_or (doc_id e) ''unknown''
                 | Some u \<Rightarrow> if u \<noteq> [] then u else get_or (doc_id e) ''unknown'');
          frag = ''['' @ str_nat idx @ ''] '' @ src
      in case heading e of
           None \<Rightarrow> frag
         | Some h \<Rightarrow> if h \<noteq> [] then frag @ '' :: '' @ h else frag)"

text \<open>The loop over \<open>enumerate(evidence, start=idx)\<close>.\<close>

fun format_citations_from :: "nat \<Rightarrow> evidence list \<Rightarrow> string list" where
  "format_citations_from idx [] = []"
| "format_citations_from idx (e # es) = citation idx e # format_citations_from (Suc idx) es"

definition format_citations :: "evidence list \<Rightarrow> string list" where
  "format_citations ev = format_citations_from 1 ev"

definition abstention :: string where
  "abstention = ''I don't have enough information to answer confidently. ''
     @ ''Please provide more details or ingest relevant documents.''"

text \<open>What an f-string prints for \<open>e.get('text')\<close>: the text, or \<open>None\<close>.\<close>

definition str_opt :: "string option \<Rightarrow> string" where
  "str_opt v = (case v of None \<Rightarrow> ''None'' | Some t \<Rightarrow> t)"

definition answerer_node :: "graph_state \<Rightarrow> graph_state" where
  "answerer_node state =
     (let query = get_or (user_query state) [];
          ev = get_or (retrieved_evidence state) [];
          draft = (if ev = [] then abstention
                   else join [CHR 0x0A]
                          ([''Q: '' @ query, ''A (grounded):'']
                           @ map (\<lambda>e. ''- '' @ str_opt (item_text e)) (take 2 ev)));
          cites = (if ev = [] then [] else format_citations (take 2 ev))
      in empty_state
           \<lparr>draft_answer := Some draft,
            citations := Some cites,
            audit_trail := Some (get_or (audit_trail state) []
              @ [[(''node'', PyStr ''answerer''), (''len'', PyInt (int (length draft)))]])\<rparr>)"

section \<open>Uncertainty (app/utils/uncertainty.py, app/graph/nodes/uncertainty.py)\<close>

definition aggregate_uncertainty :: "span list \<Rightarrow> uncertainty_summary" where
  "aggregate_uncertainty sps =
     (if sps = [] then \<lparr>overall = Some 0, spans = Some []\<rparr>
      else \<lparr>overall = Some (py_sum (map (\<lambda>s. get_or (entropy s) 0) sps)
                              / real (max (length sps) 1)),
            spans = Some sps\<rparr>)"

definition uncertainty_node :: "graph_state \<Rightarrow> graph_state" where
  "uncertainty_node state =
     (let ev = get_or (retrieved_evidence state) [];
          sps = (if ev \<noteq> []
                 then [\<lparr>span_start = Some 0, span_end = Some 10, entropy = Some (1 / 10)\<rparr>]
                 else [\<lparr>span_start = Some 0, span_end = Some 10, entropy = Some (12 / 10)\<rparr>]);
          unc = aggregate_uncertainty sps
      in empty_state
           \<lparr>uncertainty := Some unc,
            audit_trail := Some (get_or (audit_trail state) []
              @ [[(''node'', PyStr ''uncertainty''),
                  (''overall'', case overall unc of None \<Rightarrow> PyNone | Some x \<Rightarrow> PyFloat x)]])\<rparr>)"

section \<open>Validator, auditor and supervisor\<close>

definition validator_node :: "graph_state \<Rightarrow> graph_state" where
  "validator_node state =
     (let ev = get_or (retrieved_evidence state) [];
          fl = (ev \<noteq> []);
          report = \<lparr>faithful = Some fl, checks = Some [''stub'']\<rparr>
      in empty_state
           \<lparr>validation_reports := Some report,
            audit_trail := Some (get_or (audit_trail state) []
              @ [[(''node'', PyStr ''validator''), (''faithful'', PyBool fl)]])\<rparr>)"

text \<open>
  \<open>(state.get("uncertainty") or {}).get("overall", 1.0)\<close> and
  \<open>(state.get("validation_reports") or {}).get("faithful", False)\<close>, shared by the auditor
  and the supervisor.
\<close>

definition state_overall :: "graph_state \<Rightarrow> real" where
  "state_overall state =
     get_or (overall (get_or (uncertainty state) \<lparr>overall = None, spans = None\<rparr>)) 1"

definition state_faithful :: "graph_state \<Rightarrow> bool" where
  "state_faithful state =
     get_or (faithful (get_or (validation_reports state) \<lparr>faithful = None, checks = None\<rparr>)) False"

definition auditor_node :: "graph_state \<Rightarrow> graph_state" where
  "auditor_node state =
     (let unc = state_overall state;
          fl = state_faithful state;
          flag = (unc > 8 / 10 \<or> \<not> fl)
      in empty_state
           \<lparr>audit_trail := Some (get_or (audit_trail state) []
              @ [[(''node'', PyStr ''auditor''), (''flag'', PyBool flag)]])\<rparr>)"

definition supervisor_node :: "graph_state \<Rightarrow> graph_state" where
  "supervisor_node state =
     (let unc = state_overall state;
          fl = state_faithful state;
          dec = (if fl \<and> unc < 8 / 10 then ''answer''
                 else (if fl then ''answer'' else ''dlq''))
      in empty_state
           \<lparr>decision := Some dec,
            audit_trail := Some (get_or (audit_trail state) []
              @ [[(''node'', PyStr ''supervisor''), (''decision'', PyStr dec)]])\<rparr>)"

section \<open>The pipeline (app/graph/__init__.py)\<close>

type_synonym node = "graph_state \<Rightarrow> py_error + graph_state"

text \<open>
  The loop of \<open>SimplePipeline.invoke\<close>: a stage that raises ends the run; a non-empty
  update is merged into the state.
\<close>

fun run_nodes :: "node list \<Rightarrow> graph_state \<Rightarrow> py_error + graph_state" where
  "run_nodes [] state = Inr state"
| "run_nodes (nd # rest) state =
     (case nd state of
        Inl e \<Rightarrow> Inl e
      | Inr updates \<Rightarrow>
          run_nodes rest (if updates \<noteq> empty_state then state_update state updates else state))"

definition SimplePipeline_invoke :: "graph_state \<Rightarrow> py_error + graph_state" where
  "SimplePipeline_invoke state =
     run_nodes
       [Inr \<circ> router_node,
        retriever_node,
        Inr \<circ> ranker_node,
        Inr \<circ> answerer_node,
        Inr \<circ> uncertainty_node,
        Inr \<circ> validator_node,
        Inr \<circ> auditor_node,
        Inr \<circ> supervisor_node]
       state"

text \<open>
  The graph that \<open>build_graph\<close> hands to the graph backend: the nodes it adds, the entry
  point it sets and the edges it adds, in the order of the source.
\<close>

record state_graph =
  nodes :: "(string \<times> node) list"
  entry_point :: "string option"
  edges :: "(string \<times> string) list"

definition END :: string where
  "END = ''__end__''"

definition add_node :: "string \<Rightarrow> node \<Rightarrow> state_graph \<Rightarrow> state_graph" where
  "add_node name nd sg = sg\<lparr>nodes := nodes sg @ [(name, nd)]\<rparr>"

definition set_entry_point :: "string \<Rightarrow> state_graph \<Rightarrow> state_graph" where
  "set_entry_point name sg = sg\<lparr>entry_point := Some name\<rparr>"

definition add_edge :: "string \<Rightarrow> string \<Rightarrow> state_graph \<Rightarrow> state_graph" where
  "add_edge a b sg = sg\<lparr>edges := edges sg @ [(a, b)]\<rparr>"

definition build_graph :: state_graph where
  "build_graph =
     (add_edge ''supervisor'' END
      \<circ> add_edge ''auditor'' ''supervisor''
      \<circ> add_edge ''validator'' ''auditor''
      \<circ> add_edge ''uncertainty'' ''validator''
      \<circ> add_edge ''answerer'' ''uncertainty''
      \<circ> add_edge ''ranker'' ''answerer''
      \<circ> add_edge ''retriever'' ''ranker''
      \<circ> add_edge ''router'' ''retriever''
      \<circ> set_entry_point ''router''
      \<circ> add_node ''supervisor'' (Inr \<circ> supervisor_node)
      \<circ> add_node ''auditor'' (Inr \<circ> auditor_node)
      \<circ> add_node ''validator'' (Inr \<circ> validator_node)
      \<circ> add_node ''uncertainty'' (Inr \<circ> uncertainty_node)
      \<circ> add_node ''answerer'' (Inr \<circ> answerer_node)
      \<circ> add_node ''ranker'' (Inr \<circ> ranker_node)
      \<circ> add_node ''retriever'' retriever_node
      \<circ> add_node ''router'' (Inr \<circ> router_node))
       \<lparr>nodes = [], entry_point = None, edges = []\<rparr>"

text \<open>
  Modelled from the spec: the runnable that the graph backend compiles (\<open>sg.compile()\<close>
  and its \<open>invoke\<close>), which belongs to an external library and is not in the source.
  Section 4.1 of the spec: it applies each stage in the fixed order, each stage returns a
  partial update, and the engine merges the update into the state, field by field, the
  last writer winning. Here the order is the one the edges give from the entry point; a
  node with no edge, an edge to an unknown node and a missing entry point are refused,
  and a run of more than \<open>recursion_limit\<close> steps is an error.
\<close>

fun graph_run :: "nat \<Rightarrow> state_graph \<Rightarrow> string \<Rightarrow> graph_state \<Rightarrow> py_error + graph_state" where
  "graph_run 0 sg cur state = Inl GraphRecursionError"
| "graph_run (Suc fuel) sg cur state =
     (if cur = END then Inr state
      else case map_of (nodes sg) cur of
             None \<Rightarrow> Inl InvalidGraph
           | Some nd \<Rightarrow>
               (case nd state of
                  Inl e \<Rightarrow> Inl e
                | Inr updates \<Rightarrow>
                    (case map_of (edges sg) cur of
                       None \<Rightarrow> Inl InvalidGraph
                     | Some nxt \<Rightarrow>
                         graph_run fuel sg nxt
                           (if updates \<noteq> empty_state then state_update state updates
                            else state))))"

definition recursion_limit :: nat where
  "recursion_limit = 25"

definition compiled_invoke :: "state_graph \<Rightarrow> graph_state \<Rightarrow> py_error + graph_state" where
  "compiled_invoke sg state =
     (case entry_point sg of
        None \<Rightarrow> Inl InvalidGraph
      | Some start \<Rightarrow> graph_run recursion_limit sg start state)"

section \<open>The dead-letter queue (app/dlq/queue.py)\<close>











text \<open>
  Three evidence items with fields missing: the first has no \<open>source_uri\<close>, the second
  has an empty \<open>source_uri\<close>, no \<open>doc_id\<close> and an empty heading, the third is complete.
\<close>

definition example_evidence :: "evidence list" where
  "example_evidence =
     [\<lparr>doc_id = Some ''doc-1'', heading = Some ''Overview'', item_text = Some ''Alpha.'',
       source_uri = None, security_tags = None, score = Some 2\<rparr>,
      \<lparr>doc_id = None, heading = Some [], item_text = Some ''Beta.'',
       source_uri = Some [], security_tags = None, score = Some 1\<rparr>,
      \<lparr>doc_id = Some ''doc-3'', heading = Some ''Gamma'', item_text = Some ''Gamma.'',
       source_uri = Some ''internal://c.md'', security_tags = Some [''public''], score = Some 1\<rparr>]"

section \<open>Observations used by the properties\<close>

text \<open>The node names of an audit trail: for each record, what it holds under \<open>node\<close>.\<close>

definition node_names :: "audit_record list \<Rightarrow> pyval option list" where
  "node_names trail = map (\<lambda>r. map_of r ''node'') trail"

text \<open>
  The score of a document for a list of terms: the sum, over the terms, of the number of
  occurrences of the term in the lowercased text.
\<close>

definition doc_score :: "string list \<Rightarrow> evidence \<Rightarrow> nat" where
  "doc_score terms d = (\<Sum>t\<leftarrow>terms. str_count (lower (get_or (item_text d) [])) t)"

section \<open>The supervisor's decision policy\<close>

text \<open>
  Claim C1. In every state that reaches the supervisor: when \<open>validation_reports.faithful\<close>
  is true the decision is \<open>answer\<close>, whatever \<open>uncertainty.overall\<close> is; when it is false
  (or absent, which reads as false) the decision is \<open>dlq\<close>, whatever \<open>uncertainty.overall\<close>
  is; the decision is always one of \<open>answer\<close> and \<open>dlq\<close>.
\<close>

theorem supervisor_decision:
  "(validation_reports state = Some v \<and> faithful v = Some True
      \<longrightarrow> decision (supervisor_node state) = Some ''answer'')
   \<and> (validation_reports state = Some v \<and> faithful v = Some False
      \<longrightarrow> decision (supervisor_node state) = Some ''dlq'')
   \<and> (validation_reports state = None \<or> (validation_reports state = Some v \<and> faithful v = None)
      \<longrightarrow> decision (supervisor_node state) = Some ''dlq'')
   \<and> (decision (supervisor_node state) = Some ''answer''
      \<or> decision (supervisor_node state) = Some ''dlq'')"
  by (simp add: supervisor_node_def state_faithful_def get_or_def Let_def empty_state_def)

text \<open>Faithful with an overall uncertainty of 0.9 answers; unfaithful with 0.1 goes to the queue.\<close>

theorem supervisor_decision_witness:
  "decision (supervisor_node (empty_state
      \<lparr>uncertainty := Some \<lparr>overall = Some (9 / 10), spans = Some []\<rparr>,
       validation_reports := Some \<lparr>faithful = Some True, checks = Some [''stub'']\<rparr>\<rparr>))
     = Some ''answer''
   \<and> decision (supervisor_node (empty_state
      \<lparr>uncertainty := Some \<lparr>overall = Some (1 / 10), spans = Some []\<rparr>,
       validation_reports := Some \<lparr>faithful = Some False, checks = Some [''stub'']\<rparr>\<rparr>))
     = Some ''dlq''"
  using supervisor_decision [of "empty_state
      \<lparr>uncertainty := Some \<lparr>overall = Some (9 / 10), spans = Some []\<rparr>,
       validation_reports := Some \<lparr>faithful = Some True, checks = Some [''stub'']\<rparr>\<rparr>"
      "\<lparr>faithful = Some True, checks = Some [''stub'']\<rparr>"]
    supervisor_decision [of "empty_state
      \<lparr>uncertainty := Some \<lparr>overall = Some (1 / 10), spans = Some []\<rparr>,
       validation_reports := Some \<lparr>faithful = Some False, checks = Some [''stub'']\<rparr>\<rparr>"
      "\<lparr>faithful = Some False, checks = Some [''stub'']\<rparr>"]
  by (simp add: empty_state_def)

section \<open>The answerer without evidence\<close>

text \<open>
  Claim C3. In every state whose \<open>retrieved_evidence\<close> is empty (or absent, which reads as
  empty), the answerer's \<open>draft_answer\<close> is the fixed abstention message, a non-empty
  string that does not depend on the query, and its \<open>citations\<close> are the empty list.
\<close>

theorem answerer_abstains:
  "retrieved_evidence state = None \<or> retrieved_evidence state = Some [] \<Longrightarrow>
   draft_answer (answerer_node state) = Some abstention
   \<and> citations (answerer_node state) = Some []
   \<and> abstention = ''I don't have enough information to answer confidently. Please provide more details or ingest relevant documents.''
   \<and> abstention \<noteq> []"
  by (auto simp add: answerer_node_def get_or_def Let_def empty_state_def abstention_def)

theorem answerer_abstains_witness:
  "retrieved_evidence (empty_state\<lparr>user_query := Some ''anything''\<rparr>) = None
   \<and> draft_answer (answerer_node (empty_state\<lparr>user_query := Some ''anything''\<rparr>)) = Some abstention
   \<and> citations (answerer_node (empty_state\<lparr>user_query := Some ''anything''\<rparr>)) = Some []"
  using answerer_abstains [of "empty_state\<lparr>user_query := Some ''anything''\<rparr>"]
  by (simp add: empty_state_def)

section \<open>Aggregating span uncertainties\<close>

lemma py_sum_sum_list: "py_sum xs = sum_list xs"
proof -
  have "foldl (+) a xs = a + sum_list xs" for a :: "'a::monoid_add"
    by (induction xs arbitrary: a) (simp_all add: add.assoc)
  then show ?thesis by (simp add: py_sum_def)
qed



section \<open>The router's intent\<close>




section \<open>Retrieval\<close>

lemma score_item_ok:
  "terms = [] \<or> item_text d \<noteq> None \<Longrightarrow> score_item terms d = Inr (doc_score terms d)"
  by (auto simp: score_item_def doc_score_def py_sum_sum_list get_or_def)

lemma score_loop_ok:
  "terms = [] \<or> (\<forall>d \<in> set corpus. item_text d \<noteq> None) \<Longrightarrow>
   score_loop terms corpus acc =
     Inr (acc @ map (\<lambda>d. (doc_score terms d, d)) (filter (\<lambda>d. 0 < doc_score terms d) corpus))"
proof (induction corpus arbitrary: acc)
  case Nil
  then show ?case by simp
next
  case (Cons d corpus)
  have "score_item terms d = Inr (doc_score terms d)"
    using Cons.prems by (intro score_item_ok) auto
  moreover have "terms = [] \<or> (\<forall>d \<in> set corpus. item_text d \<noteq> None)"
    using Cons.prems by auto
  ultimately show ?case
    by (simp add: Cons.IH)
qed

lemma insort_key_map:
  "insort_key f (g x) (map g xs) = map g (insort_key (\<lambda>y. f (g y)) x xs)"
  by (induction xs) simp_all

lemma sort_key_map: "sort_key f (map g xs) = map g (sort_key (\<lambda>y. f (g y)) xs)"
  by (induction xs) (simp_all add: insort_key_map)

lemma sort_reverse_map:
  "sort_reverse f (map g xs) = map g (sort_reverse (\<lambda>y. f (g y)) xs)"
  by (simp add: sort_reverse_def rev_map sort_key_map)

lemma sort_reverse_descending: "sorted_wrt (\<lambda>a b. f b \<le> f a) (sort_reverse f xs)"
proof -
  have "sorted (map f (sort_key f (rev xs)))"
    by (rule sorted_sort_key)
  then have "sorted_wrt (\<lambda>a b. f a \<le> f b) (sort_key f (rev xs))"
    by (simp add: sorted_map)
  then show ?thesis
    by (simp add: sort_reverse_def sorted_wrt_rev)
qed

lemma sort_reverse_stable: "filter (\<lambda>x. f x = v) (sort_reverse f xs) = filter (\<lambda>x. f x = v) xs"
proof -
  have "filter (\<lambda>x. f x = v) (sort_key f (rev xs)) = filter (\<lambda>x. f x = v) (rev xs)"
    by (rule sort_key_stable)
  then show ?thesis
    by (simp add: sort_reverse_def rev_filter [symmetric])
qed

lemma simple_keyword_match_eq:
  assumes "\<forall>d \<in> set corpus. item_text d \<noteq> None"
    and "terms = filter (\<lambda>t. 2 < length t) (split (lower query))"
  shows "simple_keyword_match corpus query k =
     Inr (map (\<lambda>d. d\<lparr>score := Some (real (doc_score terms d))\<rparr>)
            (take k (sort_reverse (doc_score terms)
               (filter (\<lambda>d. 0 < doc_score terms d) corpus))))"
proof (cases "query = []")
  case True
  then have "terms = []"
    using assms(2) by (simp add: lower_def split_def)
  then have "doc_score terms d = 0" for d
    by (simp add: doc_score_def)
  then show ?thesis
    using True by (simp add: simple_keyword_match_def sort_reverse_def)
next
  case False
  have "sort_reverse fst (map (\<lambda>d. (doc_score terms d, d)) ys)
      = map (\<lambda>d. (doc_score terms d, d)) (sort_reverse (doc_score terms) ys)" for ys
    by (simp add: sort_reverse_map)
  then show ?thesis
    using False assms
    by (simp add: simple_keyword_match_def score_loop_ok Let_def take_map o_def)
qed

lemma isspace_lower_char: "isspace (lower_char c) = isspace c"
  by (auto simp: isspace_def lower_char_def Let_def of_char_of)

lemma split_from_map:
  assumes "\<And>c. isspace (f c) = isspace c"
  shows "split_from (map f cur) (map f s) = map (map f) (split_from cur s)"
proof (induction s arbitrary: cur)
  case Nil
  then show ?case by simp
next
  case (Cons a s)
  from Cons.IH [of "[]"] Cons.IH [of "cur @ [a]"] show ?case
    by (simp add: assms)
qed

lemma split_lower: "split (lower s) = map lower (split s)"
  using split_from_map [of lower_char "[]" s]
  by (simp add: split_def lower_def isspace_lower_char)

lemma length_lower: "length (lower s) = length s"
  by (simp add: lower_def)

lemma no_terms:
  "\<forall>t \<in> set (split query). length t \<le> 2 \<Longrightarrow>
   filter (\<lambda>t. 2 < length t) (split (lower query)) = []"
  by (auto simp: split_lower filter_empty_conv length_lower)

lemma simple_keyword_match_no_terms:
  assumes "\<forall>t \<in> set (split query). length t \<le> 2"
  shows "simple_keyword_match corpus query k = Inr []"
  using assms
  by (simp add: simple_keyword_match_def no_terms score_loop_ok Let_def doc_score_def sort_reverse_def)

lemma CORPUS_texts: "\<forall>d \<in> set CORPUS. item_text d \<noteq> None"
  by (simp add: CORPUS_def)


text \<open>
  Claim C5. For every query and every corpus whose documents have a text: the terms are
  the whitespace-separated tokens of the lowercased query that are longer than 2; the
  result is the first 5 of a list \<open>ds\<close> of documents, each with its score written into
  \<open>score\<close>; \<open>ds\<close> holds, for each score above 0, the corpus documents of that score in
  corpus order, and none of score 0; \<open>ds\<close> is in descending order of score; the empty
  query gives no evidence; the retriever stage returns this result for \<open>CORPUS\<close>. The
  result is a function of the query and the corpus alone.
\<close>

theorem retriever_ranking:
  assumes "\<forall>d \<in> set corpus. item_text d \<noteq> None"
    and "terms = filter (\<lambda>t. 2 < length t) (split (lower query))"
  shows "(\<exists>ds. simple_keyword_match corpus query 5
            = Inr (map (\<lambda>d. d\<lparr>score := Some (real (doc_score terms d))\<rparr>) (take 5 ds))
          \<and> (\<forall>v. filter (\<lambda>d. doc_score terms d = v) ds
                 = (if 0 < v then filter (\<lambda>d. doc_score terms d = v) corpus else []))
          \<and> sorted_wrt (\<lambda>a b. doc_score terms b \<le> doc_score terms a) ds
          \<and> (query = [] \<longrightarrow> ds = []))
     \<and> simple_keyword_match corpus [] 5 = Inr []
     \<and> map_sum id retrieved_evidence (retriever_node state)
         = map_sum id Some (simple_keyword_match CORPUS (get_or (user_query state) []) 5)"
proof -
  define ds where "ds = sort_reverse (doc_score terms) (filter (\<lambda>d. 0 < doc_score terms d) corpus)"
  have a: "simple_keyword_match corpus query 5
            = Inr (map (\<lambda>d. d\<lparr>score := Some (real (doc_score terms d))\<rparr>) (take 5 ds))"
    unfolding ds_def by (rule simple_keyword_match_eq [OF assms])
  have b: "filter (\<lambda>d. doc_score terms d = v) ds
             = (if 0 < v then filter (\<lambda>d. doc_score terms d = v) corpus else [])" for v
  proof -
    have "filter (\<lambda>d. doc_score terms d = v) ds
        = filter (\<lambda>d. doc_score terms d = v) (filter (\<lambda>d. 0 < doc_score terms d) corpus)"
      unfolding ds_def by (rule sort_reverse_stable)
    also have "\<dots> = (if 0 < v then filter (\<lambda>d. doc_score terms d = v) corpus else [])"
      by (auto intro: filter_cong simp: filter_empty_conv)
    finally show ?thesis .
  qed
  have c: "sorted_wrt (\<lambda>a b. doc_score terms b \<le> doc_score terms a) ds"
    unfolding ds_def by (rule sort_reverse_descending)
  have d: "query = [] \<longrightarrow> ds = []"
  proof
    assume "query = []"
    then have "terms = []"
      using assms(2) by (simp add: lower_def split_def)
    then have "doc_score terms x = 0" for x
      by (simp add: doc_score_def)
    then show "ds = []"
      by (simp add: ds_def sort_reverse_def)
  qed
  have e: "simple_keyword_match corpus [] 5 = Inr []"
    by (simp add: simple_keyword_match_def)
  have f: "map_sum id retrieved_evidence (retriever_node state)
         = map_sum id Some (simple_keyword_match CORPUS (get_or (user_query state) []) 5)"
    by (simp add: retriever_node_def Let_def empty_state_def split: sum.splits)
  from a b c d e f show ?thesis by blast
qed

text \<open>The two documents of \<open>CORPUS\<close>, ranked for a query: the second scores 2, the first 1.\<close>

theorem retriever_ranking_witness:
  "item_text (CORPUS ! 0) \<noteq> None \<and> item_text (CORPUS ! 1) \<noteq> None \<and> length CORPUS = 2
   \<and> filter (\<lambda>t. 2 < length t) (split (lower ''Is UDA entropy data''))
       = [''uda'', ''entropy'', ''data'']
   \<and> simple_keyword_match CORPUS ''Is UDA entropy data'' 5
       = Inr [(CORPUS ! 1)\<lparr>score := Some 2\<rparr>, (CORPUS ! 0)\<lparr>score := Some 1\<rparr>]
   \<and> (\<exists>ds. simple_keyword_match CORPUS ''Is UDA entropy data'' 5
            = Inr (map (\<lambda>d. d\<lparr>score := Some (real (doc_score [''uda'', ''entropy'', ''data''] d))\<rparr>)
                     (take 5 ds))
          \<and> sorted_wrt (\<lambda>a b. doc_score [''uda'', ''entropy'', ''data''] b
                               \<le> doc_score [''uda'', ''entropy'', ''data''] a) ds)"
proof -
  have c: "item_text (CORPUS ! 0) \<noteq> None \<and> item_text (CORPUS ! 1) \<noteq> None \<and> length CORPUS = 2"
    by (simp add: CORPUS_def)
  then have h: "\<forall>d \<in> set CORPUS. item_text d \<noteq> None"
    by (simp add: CORPUS_def)
  have t: "[''uda'', ''entropy'', ''data'']
      = filter (\<lambda>t. 2 < length t) (split (lower ''Is UDA entropy data''))"
    by code_simp
  have e: "simple_keyword_match CORPUS ''Is UDA entropy data'' 5
       = Inr [(CORPUS ! 1)\<lparr>score := Some 2\<rparr>, (CORPUS ! 0)\<lparr>score := Some 1\<rparr>]"
    by code_simp
  have t': "filter (\<lambda>t. 2 < length t) (split (lower ''Is UDA entropy data''))
      = [''uda'', ''entropy'', ''data'']"
    using t by simp
  from retriever_ranking [OF h t] obtain ds where
    d1: "simple_keyword_match CORPUS ''Is UDA entropy data'' 5
            = Inr (map (\<lambda>d. d\<lparr>score := Some (real (doc_score [''uda'', ''entropy'', ''data''] d))\<rparr>)
                     (take 5 ds))"
    and d2: "sorted_wrt (\<lambda>a b. doc_score [''uda'', ''entropy'', ''data''] b
                               \<le> doc_score [''uda'', ''entropy'', ''data''] a) ds"
    by blast
  from c t' e d1 d2 show ?thesis
    by blast
qed

section \<open>A full run of the sequential pipeline\<close>

lemma node_nonempty:
  "router_node s \<noteq> empty_state" "ranker_node s \<noteq> empty_state" "answerer_node s \<noteq> empty_state"
  "uncertainty_node s \<noteq> empty_state" "validator_node s \<noteq> empty_state"
  "auditor_node s \<noteq> empty_state" "supervisor_node s \<noteq> empty_state"
  by (simp_all add: router_node_def ranker_node_def answerer_node_def uncertainty_node_def
      validator_node_def auditor_node_def supervisor_node_def Let_def empty_state_def)

lemma run_nodes_steps:
  "run_nodes ((Inr \<circ> router_node) # rest) s = run_nodes rest (state_update s (router_node s))"
  "run_nodes ((Inr \<circ> ranker_node) # rest) s = run_nodes rest (state_update s (ranker_node s))"
  "run_nodes ((Inr \<circ> answerer_node) # rest) s = run_nodes rest (state_update s (answerer_node s))"
  "run_nodes ((Inr \<circ> uncertainty_node) # rest) s = run_nodes rest (state_update s (uncertainty_node s))"
  "run_nodes ((Inr \<circ> validator_node) # rest) s = run_nodes rest (state_update s (validator_node s))"
  "run_nodes ((Inr \<circ> auditor_node) # rest) s = run_nodes rest (state_update s (auditor_node s))"
  "run_nodes ((Inr \<circ> supervisor_node) # rest) s = run_nodes rest (state_update s (supervisor_node s))"
  by (simp_all add: node_nonempty)

lemma run_nodes_retriever:
  "retriever_node state = Inr u \<Longrightarrow> u \<noteq> empty_state \<Longrightarrow>
   run_nodes (retriever_node # rest) state = run_nodes rest (state_update state u)"
  by simp

lemma router_frame:
  "user_query (state_update s (router_node s)) = user_query s"
  "retrieved_evidence (state_update s (router_node s)) = retrieved_evidence s"
  "draft_answer (state_update s (router_node s)) = draft_answer s"
  "citations (state_update s (router_node s)) = citations s"
  "uncertainty (state_update s (router_node s)) = uncertainty s"
  "validation_reports (state_update s (router_node s)) = validation_reports s"
  "decision (state_update s (router_node s)) = decision s"
  by (simp_all add: router_node_def state_update_def override_def empty_state_def Let_def get_or_def)

lemma router_trail:
  "node_names (get_or (audit_trail (state_update s (router_node s))) [])
     = node_names (get_or (audit_trail s) []) @ [Some (PyStr ''router'')]"
  by (simp add: router_node_def node_names_def state_update_def override_def empty_state_def Let_def get_or_def)

lemma ranker_frame:
  "user_query (state_update s (ranker_node s)) = user_query s"
  "intent (state_update s (ranker_node s)) = intent s"
  "draft_answer (state_update s (ranker_node s)) = draft_answer s"
  "citations (state_update s (ranker_node s)) = citations s"
  "uncertainty (state_update s (ranker_node s)) = uncertainty s"
  "validation_reports (state_update s (ranker_node s)) = validation_reports s"
  "decision (state_update s (ranker_node s)) = decision s"
  by (simp_all add: ranker_node_def state_update_def override_def empty_state_def Let_def get_or_def)

lemma ranker_trail:
  "node_names (get_or (audit_trail (state_update s (ranker_node s))) [])
     = node_names (get_or (audit_trail s) []) @ [Some (PyStr ''ranker'')]"
  by (simp add: ranker_node_def node_names_def state_update_def override_def empty_state_def Let_def get_or_def)

lemma answerer_frame:
  "user_query (state_update s (answerer_node s)) = user_query s"
  "intent (state_update s (answerer_node s)) = intent s"
  "retrieved_evidence (state_update s (answerer_node s)) = retrieved_evidence s"
  "uncertainty (state_update s (answerer_node s)) = uncertainty s"
  "validation_reports (state_update s (answerer_node s)) = validation_reports s"
  "decision (state_update s (answerer_node s)) = decision s"
  by (simp_all add: answerer_node_def state_update_def override_def empty_state_def Let_def get_or_def)

lemma answerer_trail:
  "node_names (get_or (audit_trail (state_update s (answerer_node s))) [])
     = node_names (get_or (audit_trail s) []) @ [Some (PyStr ''answerer'')]"
  by (simp add: answerer_node_def node_names_def state_update_def override_def empty_state_def Let_def get_or_def)

lemma uncertainty_frame:
  "user_query (state_update s (uncertainty_node s)) = user_query s"
  "intent (state_update s (uncertainty_node s)) = intent s"
  "retrieved_evidence (state_update s (uncertainty_node s)) = retrieved_evidence s"
  "draft_answer (state_update s (uncertainty_node s)) = draft_answer s"
  "citations (state_update s (uncertainty_node s)) = citations s"
  "validation_reports (state_update s (uncertainty_node s)) = validation_reports s"
  "decision (state_update s (uncertainty_node s)) = decision s"
  by (simp_all add: uncertainty_node_def state_update_def override_def empty_state_def Let_def get_or_def)

lemma uncertainty_trail:
  "node_names (get_or (audit_trail (state_update s (uncertainty_node s))) [])
     = node_names (get_or (audit_trail s) []) @ [Some (PyStr ''uncertainty'')]"
  by (simp add: uncertainty_node_def node_names_def state_update_def override_def empty_state_def Let_def get_or_def)

lemma validator_frame:
  "user_query (state_update s (validator_node s)) = user_query s"
  "intent (state_update s (validator_node s)) = intent s"
  "retrieved_evidence (state_update s (validator_node s)) = retrieved_evidence s"
  "draft_answer (state_update s (validator_node s)) = draft_answer s"
  "citations (state_update s (validator_node s)) = citations s"
  "uncertainty (state_update s (validator_node s)) = uncertainty s"
  "decision (state_update s (validator_node s)) = decision s"
  by (simp_all add: validator_node_def state_update_def override_def empty_state_def Let_def get_or_def)

lemma validator_trail:
  "node_names (get_or (audit_trail (state_update s (validator_node s))) [])
     = node_names (get_or (audit_trail s) []) @ [Some (PyStr ''validator'')]"
  by (simp add: validator_node_def node_names_def state_update_def override_def empty_state_def Let_def get_or_def)

lemma auditor_frame:
  "user_query (state_update s (auditor_node s)) = user_query s"
  "intent (state_update s (auditor_node s)) = intent s"
  "retrieved_evidence (state_update s (auditor_node s)) = retrieved_evidence s"
  "draft_answer (state_update s (auditor_node s)) = draft_answer s"
  "citations (state_update s (auditor_node s)) = citations s"
  "uncertainty (state_update s (auditor_node s)) = uncertainty s"
  "validation_reports (state_update s (auditor_node s)) = validation_reports s"
  "decision (state_update s (auditor_node s)) = decision s"
  by (simp_all add: auditor_node_def state_update_def override_def empty_state_def Let_def get_or_def)

lemma auditor_trail:
  "node_names (get_or (audit_trail (state_update s (auditor_node s))) [])
     = node_names (get_or (audit_trail s) []) @ [Some (PyStr ''auditor'')]"
  by (simp add: auditor_node_def node_names_def state_update_def override_def empty_state_def Let_def get_or_def)

lemma supervisor_frame:
  "user_query (state_update s (supervisor_node s)) = user_query s"
  "intent (state_update s (supervisor_node s)) = intent s"
  "retrieved_evidence (state_update s (supervisor_node s)) = retrieved_evidence s"
  "draft_answer (state_update s (supervisor_node s)) = draft_answer s"
  "citations (state_update s (supervisor_node s)) = citations s"
  "uncertainty (state_update s (supervisor_node s)) = uncertainty s"
  "validation_reports (state_update s (supervisor_node s)) = validation_reports s"
  by (simp_all add: supervisor_node_def state_update_def override_def empty_state_def Let_def get_or_def)

lemma supervisor_trail:
  "node_names (get_or (audit_trail (state_update s (supervisor_node s))) [])
     = node_names (get_or (audit_trail s) []) @ [Some (PyStr ''supervisor'')]"
  by (simp add: supervisor_node_def node_names_def state_update_def override_def empty_state_def Let_def get_or_def)

lemma router_writes:
  "intent (state_update s (router_node s)) = intent (router_node s)"
  by (simp add: router_node_def state_update_def override_def empty_state_def Let_def)

lemma ranker_writes:
  "retrieved_evidence (state_update s (ranker_node s)) = Some (get_or (retrieved_evidence s) [])"
  by (simp add: ranker_node_def state_update_def override_def empty_state_def Let_def)

lemma answerer_writes:
  "draft_answer (state_update s (answerer_node s)) = draft_answer (answerer_node s)"
  "citations (state_update s (answerer_node s)) = citations (answerer_node s)"
  by (simp_all add: answerer_node_def state_update_def override_def empty_state_def Let_def)

lemma answerer_reads:
  "user_query s = user_query t \<Longrightarrow> retrieved_evidence s = retrieved_evidence t \<Longrightarrow>
   draft_answer (answerer_node s) = draft_answer (answerer_node t)
   \<and> citations (answerer_node s) = citations (answerer_node t)"
  by (simp add: answerer_node_def empty_state_def Let_def)

lemma uncertainty_writes:
  "uncertainty (state_update s (uncertainty_node s)) =
     Some (aggregate_uncertainty
       [\<lparr>span_start = Some 0, span_end = Some 10,
         entropy = Some (if get_or (retrieved_evidence s) [] \<noteq> [] then 1 / 10 else 12 / 10)\<rparr>])"
  by (simp add: uncertainty_node_def state_update_def override_def empty_state_def Let_def)

lemma validator_writes:
  "validation_reports (state_update s (validator_node s)) =
     Some \<lparr>faithful = Some (get_or (retrieved_evidence s) [] \<noteq> []), checks = Some [''stub'']\<rparr>"
  by (simp add: validator_node_def state_update_def override_def empty_state_def Let_def)

lemma supervisor_writes:
  "decision (state_update s (supervisor_node s)) =
     Some (if state_faithful s then ''answer'' else ''dlq'')"
  by (simp add: supervisor_node_def state_update_def override_def empty_state_def Let_def)

lemma pipeline_run:
  assumes "simple_keyword_match CORPUS (get_or (user_query state) []) 5 = Inr ev"
  shows "\<exists>s'. SimplePipeline_invoke state = Inr s'
    \<and> user_query s' = user_query state
    \<and> intent s' = intent (router_node state)
    \<and> retrieved_evidence s' = Some ev
    \<and> draft_answer s' = draft_answer (answerer_node (state\<lparr>retrieved_evidence := Some ev\<rparr>))
    \<and> citations s' = citations (answerer_node (state\<lparr>retrieved_evidence := Some ev\<rparr>))
    \<and> uncertainty s' = Some (aggregate_uncertainty
          [\<lparr>span_start = Some 0, span_end = Some 10,
            entropy = Some (if ev \<noteq> [] then 1 / 10 else 12 / 10)\<rparr>])
    \<and> validation_reports s' = Some \<lparr>faithful = Some (ev \<noteq> []), checks = Some [''stub'']\<rparr>
    \<and> decision s' = Some (if ev \<noteq> [] then ''answer'' else ''dlq'')
    \<and> node_names (get_or (audit_trail s') [])
        = node_names (get_or (audit_trail state) [])
          @ map (\<lambda>n. Some (PyStr n))
              [''router'', ''retriever'', ''ranker'', ''answerer'', ''uncertainty'',
               ''validator'', ''auditor'', ''supervisor'']"
proof -
  define s1 where "s1 = state_update state (router_node state)"
  define u2 where "u2 = empty_state
                    \<lparr>retrieved_evidence := Some ev,
                     audit_trail := Some (get_or (audit_trail s1) []
                       @ [[(''node'', PyStr ''retriever''), (''hits'', PyInt (int (length ev)))]])\<rparr>"
  define s2 where "s2 = state_update s1 u2"
  define s3 where "s3 = state_update s2 (ranker_node s2)"
  define s4 where "s4 = state_update s3 (answerer_node s3)"
  define s5 where "s5 = state_update s4 (uncertainty_node s4)"
  define s6 where "s6 = state_update s5 (validator_node s5)"
  define s7 where "s7 = state_update s6 (auditor_node s6)"
  define s8 where "s8 = state_update s7 (supervisor_node s7)"
  note defs = s1_def s2_def s3_def s4_def s5_def s6_def s7_def s8_def
  have q1: "user_query s1 = user_query state"
    by (simp add: s1_def router_frame)
  have r: "retriever_node s1 = Inr u2"
    using assms by (simp add: retriever_node_def q1 u2_def Let_def)
  have u2n: "u2 \<noteq> empty_state"
    by (simp add: u2_def empty_state_def)
  have run: "SimplePipeline_invoke state = Inr s8"
    unfolding SimplePipeline_invoke_def
    by (simp only: run_nodes_steps run_nodes_retriever [OF r u2n] run_nodes.simps(1)
        s1_def [symmetric] s2_def [symmetric] s3_def [symmetric] s4_def [symmetric]
        s5_def [symmetric] s6_def [symmetric] s7_def [symmetric] s8_def [symmetric])
  have s2_frame: "user_query s2 = user_query s1" "intent s2 = intent s1"
    by (simp_all add: s2_def u2_def state_update_def override_def empty_state_def)
  have e2: "retrieved_evidence s2 = Some ev"
    by (simp add: s2_def u2_def state_update_def override_def empty_state_def)
  have t2: "node_names (get_or (audit_trail s2) [])
      = node_names (get_or (audit_trail s1) []) @ [Some (PyStr ''retriever'')]"
    by (simp add: s2_def u2_def state_update_def override_def empty_state_def node_names_def get_or_def)
  have e3: "retrieved_evidence s3 = Some ev"
    by (simp add: s3_def ranker_writes e2 get_or_def)
  have e4: "retrieved_evidence s4 = Some ev"
    by (simp add: s4_def answerer_frame e3)
  have e5: "retrieved_evidence s5 = Some ev"
    by (simp add: s5_def uncertainty_frame e4)
  have e6: "retrieved_evidence s6 = Some ev"
    by (simp add: s6_def validator_frame e5)
  have q3: "user_query s3 = user_query state"
    by (simp add: s3_def ranker_frame s2_frame q1)
  have uq: "user_query s8 = user_query state"
    by (simp add: s8_def s7_def s6_def s5_def s4_def supervisor_frame auditor_frame
        validator_frame uncertainty_frame answerer_frame q3)
  have it: "intent s8 = intent (router_node state)"
    by (simp add: s8_def s7_def s6_def s5_def s4_def s3_def supervisor_frame auditor_frame
        validator_frame uncertainty_frame answerer_frame ranker_frame s2_frame s1_def router_writes)
  have ev: "retrieved_evidence s8 = Some ev"
    by (simp add: s8_def s7_def supervisor_frame auditor_frame e6)
  have da: "draft_answer s8 = draft_answer (answerer_node s3)" "citations s8 = citations (answerer_node s3)"
    by (simp_all add: s8_def s7_def s6_def s5_def s4_def supervisor_frame auditor_frame
        validator_frame uncertainty_frame answerer_writes)
  have rd: "draft_answer (answerer_node s3)
        = draft_answer (answerer_node (state\<lparr>retrieved_evidence := Some ev\<rparr>))
      \<and> citations (answerer_node s3)
        = citations (answerer_node (state\<lparr>retrieved_evidence := Some ev\<rparr>))"
    by (rule answerer_reads) (simp_all add: q3 e3)
  have un: "uncertainty s8 = Some (aggregate_uncertainty
          [\<lparr>span_start = Some 0, span_end = Some 10,
            entropy = Some (if ev \<noteq> [] then 1 / 10 else 12 / 10)\<rparr>])"
    by (simp add: s8_def s7_def s6_def s5_def supervisor_frame auditor_frame
        validator_frame uncertainty_writes e4 get_or_def)
  have v6: "validation_reports s6 = Some \<lparr>faithful = Some (ev \<noteq> []), checks = Some [''stub'']\<rparr>"
    by (simp add: s6_def validator_writes e5 get_or_def)
  have v7: "validation_reports s7 = Some \<lparr>faithful = Some (ev \<noteq> []), checks = Some [''stub'']\<rparr>"
    by (simp add: s7_def auditor_frame v6)
  have vr: "validation_reports s8 = Some \<lparr>faithful = Some (ev \<noteq> []), checks = Some [''stub'']\<rparr>"
    by (simp add: s8_def supervisor_frame v7)
  have de: "decision s8 = Some (if ev \<noteq> [] then ''answer'' else ''dlq'')"
    by (simp add: s8_def supervisor_writes state_faithful_def v7 get_or_def)
  have tr: "node_names (get_or (audit_trail s8) [])
        = node_names (get_or (audit_trail state) [])
          @ map (\<lambda>n. Some (PyStr n))
              [''router'', ''retriever'', ''ranker'', ''answerer'', ''uncertainty'',
               ''validator'', ''auditor'', ''supervisor'']"
    by (simp add: s8_def s7_def s6_def s5_def s4_def s3_def supervisor_trail auditor_trail
        validator_trail uncertainty_trail answerer_trail ranker_trail t2 s1_def router_trail)
  from run uq it ev da rd un vr de tr show ?thesis
    by simp
qed

lemma retrieval_returns:
  "\<exists>ev. simple_keyword_match CORPUS query k = Inr ev"
  using simple_keyword_match_eq [OF CORPUS_texts refl] by blast

text \<open>
  Claim C2, as amended. A full run of the sequential fallback runner returns, and it
  appends to the audit trail of the initial state exactly 8 records, whose node names
  are router, retriever, ranker, answerer, uncertainty, validator, auditor, supervisor
  in this order. When the initial state has no audit trail, or an empty one, the final
  trail has exactly these 8 records.
\<close>

theorem audit_trail_of_run:
  "\<exists>s'. SimplePipeline_invoke state = Inr s'
     \<and> node_names (get_or (audit_trail s') [])
         = node_names (get_or (audit_trail state) [])
           @ map (\<lambda>n. Some (PyStr n))
               [''router'', ''retriever'', ''ranker'', ''answerer'', ''uncertainty'',
                ''validator'', ''auditor'', ''supervisor'']
     \<and> length (get_or (audit_trail s') []) = length (get_or (audit_trail state) []) + 8
     \<and> (audit_trail state = None \<or> audit_trail state = Some [] \<longrightarrow>
          length (get_or (audit_trail s') []) = 8
          \<and> node_names (get_or (audit_trail s') [])
              = map (\<lambda>n. Some (PyStr n))
                  [''router'', ''retriever'', ''ranker'', ''answerer'', ''uncertainty'',
                   ''validator'', ''auditor'', ''supervisor''])"
proof -
  obtain ev where "simple_keyword_match CORPUS (get_or (user_query state) []) 5 = Inr ev"
    using retrieval_returns by blast
  from pipeline_run [OF this] obtain s' where run: "SimplePipeline_invoke state = Inr s'"
    and names: "node_names (get_or (audit_trail s') [])
         = node_names (get_or (audit_trail state) [])
           @ map (\<lambda>n. Some (PyStr n))
               [''router'', ''retriever'', ''ranker'', ''answerer'', ''uncertainty'',
                ''validator'', ''auditor'', ''supervisor'']"
    by blast
  have "length (node_names (get_or (audit_trail s') []))
      = length (node_names (get_or (audit_trail state) [])) + 8"
    by (simp add: names)
  then have len: "length (get_or (audit_trail s') []) = length (get_or (audit_trail state) []) + 8"
    by (simp add: node_names_def)
  have "audit_trail state = None \<or> audit_trail state = Some [] \<Longrightarrow>
      get_or (audit_trail state) [] = []"
    by (auto simp: get_or_def)
  with run names len show ?thesis
    by (auto simp: node_names_def)
qed

theorem audit_trail_of_run_witness:
  "audit_trail (empty_state\<lparr>user_query := Some ''How does UDA handle uncertainty?''\<rparr>) = None
   \<and> map_sum id (\<lambda>s'. node_names (get_or (audit_trail s') []))
       (SimplePipeline_invoke (empty_state\<lparr>user_query := Some ''How does UDA handle uncertainty?''\<rparr>))
     = Inr (map (\<lambda>n. Some (PyStr n))
         [''router'', ''retriever'', ''ranker'', ''answerer'', ''uncertainty'',
          ''validator'', ''auditor'', ''supervisor''])
   \<and> map_sum id (\<lambda>s'. length (get_or (audit_trail s') []))
       (SimplePipeline_invoke (empty_state\<lparr>user_query := Some ''How does UDA handle uncertainty?''\<rparr>))
     = Inr 8"
proof -
  have h: "audit_trail (empty_state\<lparr>user_query := Some ''How does UDA handle uncertainty?''\<rparr>) = None"
    by (simp add: empty_state_def)
  from audit_trail_of_run [of "empty_state\<lparr>user_query := Some ''How does UDA handle uncertainty?''\<rparr>"] h
  show ?thesis
    by auto
qed

text \<open>
  The claim as stated, for every initial state that holds a \<open>user_query\<close>, fails where the
  initial state also holds an audit trail: the run keeps its records, and the final
  trail has 9 records here.
\<close>

theorem audit_trail_counterexample:
  "user_query (empty_state\<lparr>user_query := Some ''hi'',
      audit_trail := Some [[(''node'', PyStr ''caller'')]]\<rparr>) = Some ''hi''
   \<and> map_sum id (\<lambda>s'. node_names (get_or (audit_trail s') []))
       (SimplePipeline_invoke (empty_state\<lparr>user_query := Some ''hi'',
          audit_trail := Some [[(''node'', PyStr ''caller'')]]\<rparr>))
     = Inr (map (\<lambda>n. Some (PyStr n))
         [''caller'', ''router'', ''retriever'', ''ranker'', ''answerer'', ''uncertainty'',
          ''validator'', ''auditor'', ''supervisor''])
   \<and> map_sum id (\<lambda>s'. length (get_or (audit_trail s') []))
       (SimplePipeline_invoke (empty_state\<lparr>user_query := Some ''hi'',
          audit_trail := Some [[(''node'', PyStr ''caller'')]]\<rparr>))
     = Inr 9"
  by code_simp

section \<open>Queries without a term\<close>

text \<open>
  Claim C10. When no whitespace-separated token of the query is longer than 2, the
  retriever returns no evidence, also for a non-empty query, and the full run ends with
  the abstention message, no citations, \<open>faithful\<close> false and the decision \<open>dlq\<close>.
\<close>

theorem short_tokens_abstain:
  assumes "user_query state = Some query"
    and "\<forall>t \<in> set (split query). length t \<le> 2"
  shows "simple_keyword_match CORPUS query 5 = Inr []
     \<and> (\<exists>s'. SimplePipeline_invoke state = Inr s'
          \<and> retrieved_evidence s' = Some []
          \<and> draft_answer s' = Some abstention
          \<and> citations s' = Some []
          \<and> validation_reports s' = Some \<lparr>faithful = Some False, checks = Some [''stub'']\<rparr>
          \<and> decision s' = Some ''dlq'')"
proof -
  have m: "simple_keyword_match CORPUS query 5 = Inr []"
    using assms(2) by (rule simple_keyword_match_no_terms)
  then have "simple_keyword_match CORPUS (get_or (user_query state) []) 5 = Inr []"
    by (simp add: assms(1) get_or_def)
  from pipeline_run [OF this] obtain s' where "SimplePipeline_invoke state = Inr s'"
    and "retrieved_evidence s' = Some []"
    and "draft_answer s' = draft_answer (answerer_node (state\<lparr>retrieved_evidence := Some []\<rparr>))"
    and "citations s' = citations (answerer_node (state\<lparr>retrieved_evidence := Some []\<rparr>))"
    and "validation_reports s' = Some \<lparr>faithful = Some ([] \<noteq> ([] :: evidence list)), checks = Some [''stub'']\<rparr>"
    and "decision s' = Some (if [] \<noteq> ([] :: evidence list) then ''answer'' else ''dlq'')"
    by blast
  moreover have "draft_answer (answerer_node (state\<lparr>retrieved_evidence := Some []\<rparr>)) = Some abstention"
    "citations (answerer_node (state\<lparr>retrieved_evidence := Some []\<rparr>)) = Some []"
    by (simp_all add: answerer_node_def get_or_def Let_def empty_state_def)
  ultimately show ?thesis
    using m by auto
qed

theorem short_tokens_abstain_witness:
  "split ''is it ok'' = [''is'', ''it'', ''ok'']
   \<and> simple_keyword_match CORPUS ''is it ok'' 5 = Inr []
   \<and> map_sum id (\<lambda>s'. (draft_answer s', citations s', decision s'))
       (SimplePipeline_invoke (empty_state\<lparr>user_query := Some ''is it ok''\<rparr>))
     = Inr (Some abstention, Some [], Some ''dlq'')"
proof -
  have sp: "split ''is it ok'' = [''is'', ''it'', ''ok'']"
    by code_simp
  have h1: "user_query (empty_state\<lparr>user_query := Some ''is it ok''\<rparr>) = Some ''is it ok''"
    by (simp add: empty_state_def)
  have h2: "\<forall>t \<in> set (split ''is it ok''). length t \<le> 2"
    by (simp add: sp)
  from short_tokens_abstain [OF h1 h2] sp show ?thesis
    by auto
qed

section \<open>The graph backend and the sequential fallback\<close>

lemma build_graph_eq:
  "build_graph =
     \<lparr>nodes = [(''router'', Inr \<circ> router_node), (''retriever'', retriever_node),
               (''ranker'', Inr \<circ> ranker_node), (''answerer'', Inr \<circ> answerer_node),
               (''uncertainty'', Inr \<circ> uncertainty_node), (''validator'', Inr \<circ> validator_node),
               (''auditor'', Inr \<circ> auditor_node), (''supervisor'', Inr \<circ> supervisor_node)],
      entry_point = Some ''router'',
      edges = [(''router'', ''retriever''), (''retriever'', ''ranker''), (''ranker'', ''answerer''),
               (''answerer'', ''uncertainty''), (''uncertainty'', ''validator''),
               (''validator'', ''auditor''), (''auditor'', ''supervisor''), (''supervisor'', END)]\<rparr>"
  by (simp add: build_graph_def add_node_def add_edge_def set_entry_point_def)

lemma graph_step:
  "cur \<noteq> END \<Longrightarrow> map_of (nodes sg) cur = Some nd \<Longrightarrow> map_of (edges sg) cur = Some nxt \<Longrightarrow>
   graph_run (Suc fuel) sg cur state =
     (case nd state of
        Inl e \<Rightarrow> Inl e
      | Inr updates \<Rightarrow>
          graph_run fuel sg nxt
            (if updates \<noteq> empty_state then state_update state updates else state))"
  by (simp split: sum.splits)

lemma graph_follows_chain:
  "graph_run (Suc (Suc (Suc (Suc (Suc (Suc (Suc (Suc (Suc fuel))))))))) build_graph ''router'' state
   = run_nodes
       [Inr \<circ> router_node, retriever_node, Inr \<circ> ranker_node, Inr \<circ> answerer_node,
        Inr \<circ> uncertainty_node, Inr \<circ> validator_node, Inr \<circ> auditor_node,
        Inr \<circ> supervisor_node] state"
proof -
  have n: "map_of (nodes build_graph) ''router'' = Some (Inr \<circ> router_node)"
    "map_of (nodes build_graph) ''retriever'' = Some retriever_node"
    "map_of (nodes build_graph) ''ranker'' = Some (Inr \<circ> ranker_node)"
    "map_of (nodes build_graph) ''answerer'' = Some (Inr \<circ> answerer_node)"
    "map_of (nodes build_graph) ''uncertainty'' = Some (Inr \<circ> uncertainty_node)"
    "map_of (nodes build_graph) ''validator'' = Some (Inr \<circ> validator_node)"
    "map_of (nodes build_graph) ''auditor'' = Some (Inr \<circ> auditor_node)"
    "map_of (nodes build_graph) ''supervisor'' = Some (Inr \<circ> supervisor_node)"
    by (simp_all add: build_graph_eq)
  have e: "map_of (edges build_graph) ''router'' = Some ''retriever''"
    "map_of (edges build_graph) ''retriever'' = Some ''ranker''"
    "map_of (edges build_graph) ''ranker'' = Some ''answerer''"
    "map_of (edges build_graph) ''answerer'' = Some ''uncertainty''"
    "map_of (edges build_graph) ''uncertainty'' = Some ''validator''"
    "map_of (edges build_graph) ''validator'' = Some ''auditor''"
    "map_of (edges build_graph) ''auditor'' = Some ''supervisor''"
    "map_of (edges build_graph) ''supervisor'' = Some END"
    by (simp_all add: build_graph_eq)
  have d: "''router'' \<noteq> END" "''retriever'' \<noteq> END" "''ranker'' \<noteq> END" "''answerer'' \<noteq> END"
    "''uncertainty'' \<noteq> END" "''validator'' \<noteq> END" "''auditor'' \<noteq> END" "''supervisor'' \<noteq> END"
    by (simp_all add: END_def)
  have stop: "graph_run (Suc fuel) build_graph END s = Inr s" for s
    by simp
  show ?thesis
    by (simp only: graph_step [OF d(1) n(1) e(1)] graph_step [OF d(2) n(2) e(2)]
        graph_step [OF d(3) n(3) e(3)] graph_step [OF d(4) n(4) e(4)]
        graph_step [OF d(5) n(5) e(5)] graph_step [OF d(6) n(6) e(6)]
        graph_step [OF d(7) n(7) e(7)] graph_step [OF d(8) n(8) e(8)] stop run_nodes.simps)
qed

text \<open>
  Claim C6. For every initial state, the runnable compiled from the graph of
  \<open>build_graph\<close> and the sequential fallback return the same result: the same final
  state, or the same error.
\<close>

theorem graph_equals_fallback:
  "compiled_invoke build_graph state = SimplePipeline_invoke state"
proof -
  have ep: "entry_point build_graph = Some ''router''"
    by (simp add: build_graph_eq)
  have rl: "recursion_limit = Suc (Suc (Suc (Suc (Suc (Suc (Suc (Suc (Suc 16))))))))"
    by (simp add: recursion_limit_def)
  show ?thesis
    by (simp only: compiled_invoke_def SimplePipeline_invoke_def ep option.case rl
        graph_follows_chain)
qed
text \<open>On the query of the repository's smoke test both runs return, with the decision \<open>answer\<close>.\<close>

theorem graph_equals_fallback_witness:
  "compiled_invoke build_graph (empty_state\<lparr>user_query := Some ''How does UDA handle uncertainty?''\<rparr>)
     = SimplePipeline_invoke (empty_state\<lparr>user_query := Some ''How does UDA handle uncertainty?''\<rparr>)
   \<and> map_sum id decision
        (compiled_invoke build_graph (empty_state\<lparr>user_query := Some ''How does UDA handle uncertainty?''\<rparr>))
     = Inr (Some ''answer'')"
proof -
  have "map_sum id decision
        (SimplePipeline_invoke (empty_state\<lparr>user_query := Some ''How does UDA handle uncertainty?''\<rparr>))
     = Inr (Some ''answer'')"
    by code_simp
  with graph_equals_fallback [of "empty_state\<lparr>user_query := Some ''How does UDA handle uncertainty?''\<rparr>"]
  show ?thesis
    by simp
qed

section \<open>The answerer with evidence\<close>

lemma format_citations_from_length: "length (format_citations_from idx es) = length es"
  by (induction es arbitrary: idx) simp_all

lemma format_citations_from_nth:
  "i < length es \<Longrightarrow> format_citations_from idx es ! i = citation (idx + i) (es ! i)"
proof (induction es arbitrary: idx i)
  case Nil
  then show ?case by simp
next
  case (Cons e es)
  then show ?case by (cases i) simp_all
qed

lemma sublist_join: "x \<in> set xs \<Longrightarrow> sublist x (join sep xs)"
proof (induction sep xs rule: join.induct)
  case (1 sep)
  then show ?case by simp
next
  case (2 sep y)
  then show ?case by simp
next
  case (3 sep a b ys)
  show ?case
  proof (cases "x = a")
    case True
    then show ?thesis by simp
  next
    case False
    with 3 have "sublist x (join sep (b # ys))" by simp
    moreover have "sublist (join sep (b # ys)) ((a @ sep) @ join sep (b # ys))"
      by (rule sublist_append_leftI)
    ultimately have "sublist x ((a @ sep) @ join sep (b # ys))"
      by (rule sublist_order.order_trans)
    then show ?thesis by simp
  qed
qed

text \<open>
  Claim C4. For every non-empty \<open>retrieved_evidence\<close>: the draft is the query line, the
  line \<open>A (grounded):\<close> and one line per item among the first \<open>min 2 (length ev)\<close>, in
  ranked order, and the text of each of these items occurs in the draft verbatim; there
  are \<open>min 2 (length ev)\<close> citations, and citation \<open>i\<close> (from 0) is \<open>[i + 1] src\<close> for
  item \<open>i\<close>, where \<open>src\<close> is the item's \<open>source_uri\<close>, or its \<open>doc_id\<close> when the
  \<open>source_uri\<close> is absent or empty, or \<open>unknown\<close> when the \<open>doc_id\<close> is absent too,
  followed by \<open> :: heading\<close> when the item has a non-empty heading.
\<close>

theorem answerer_grounded:
  assumes "retrieved_evidence state = Some ev" and "ev \<noteq> []"
  shows "(\<exists>draft. draft_answer (answerer_node state) = Some draft
        \<and> draft = join [CHR 0x0A]
            ([''Q: '' @ get_or (user_query state) [], ''A (grounded):'']
             @ map (\<lambda>e. ''- '' @ str_opt (item_text e)) (take (min 2 (length ev)) ev))
        \<and> (\<forall>i < min 2 (length ev). sublist (str_opt (item_text (ev ! i))) draft))
     \<and> (\<exists>cites. citations (answerer_node state) = Some cites
        \<and> length cites = min 2 (length ev)
        \<and> (\<forall>i < min 2 (length ev).
             cites ! i =
               ''['' @ str_nat (i + 1) @ ''] ''
               @ (case source_uri (ev ! i) of
                    None \<Rightarrow> get_or (doc_id (ev ! i)) ''unknown''
                  | Some u \<Rightarrow> if u \<noteq> [] then u else get_or (doc_id (ev ! i)) ''unknown'')
               @ (case heading (ev ! i) of
                    None \<Rightarrow> []
                  | Some h \<Rightarrow> if h \<noteq> [] then '' :: '' @ h else [])))
     \<and> str_nat 1 = ''1'' \<and> str_nat 2 = ''2''"
proof -
  define n where "n = min 2 (length ev)"
  define draft where "draft = join [CHR 0x0A]
            ([''Q: '' @ get_or (user_query state) [], ''A (grounded):'']
             @ map (\<lambda>e. ''- '' @ str_opt (item_text e)) (take n ev))"
  have tk: "take 2 ev = take n ev"
    by (simp add: n_def min_def)
  have d: "draft_answer (answerer_node state) = Some draft"
    using assms by (simp add: answerer_node_def Let_def empty_state_def get_or_def draft_def tk)
  have q: "sublist (str_opt (item_text (ev ! i))) draft" if "i < n" for i
  proof -
    have "ev ! i \<in> set (take n ev)"
      using that by (metis n_def in_set_conv_nth length_take min.commute min_less_iff_conj nth_take)
    then have "''- '' @ str_opt (item_text (ev ! i))
        \<in> set ([''Q: '' @ get_or (user_query state) [], ''A (grounded):'']
             @ map (\<lambda>e. ''- '' @ str_opt (item_text e)) (take n ev))"
      by auto
    then have "sublist (''- '' @ str_opt (item_text (ev ! i))) draft"
      unfolding draft_def by (rule sublist_join)
    moreover have "sublist (str_opt (item_text (ev ! i))) (''- '' @ str_opt (item_text (ev ! i)))"
      by (rule sublist_append_leftI)
    ultimately show ?thesis
      by (rule sublist_order.order_trans [rotated])
  qed
  define cites where "cites = format_citations (take 2 ev)"
  have c: "citations (answerer_node state) = Some cites"
    using assms by (simp add: answerer_node_def Let_def empty_state_def get_or_def cites_def)
  have l: "length cites = n"
    by (simp add: cites_def format_citations_def format_citations_from_length n_def min.commute)
  have f: "cites ! i =
               ''['' @ str_nat (i + 1) @ ''] ''
               @ (case source_uri (ev ! i) of
                    None \<Rightarrow> get_or (doc_id (ev ! i)) ''unknown''
                  | Some u \<Rightarrow> if u \<noteq> [] then u else get_or (doc_id (ev ! i)) ''unknown'')
               @ (case heading (ev ! i) of
                    None \<Rightarrow> []
                  | Some h \<Rightarrow> if h \<noteq> [] then '' :: '' @ h else [])" if "i < n" for i
  proof -
    have "i < length (take 2 ev)" "i < 2"
      using that by (simp_all add: n_def)
    then have "cites ! i = citation (Suc i) (ev ! i)"
      by (simp add: cites_def format_citations_def format_citations_from_nth)
    then show ?thesis
      by (simp add: citation_def Let_def split: option.splits)
  qed
  have s: "str_nat 1 = ''1''" "str_nat 2 = ''2''"
    by code_simp+
  from d q c l f s show ?thesis
    unfolding n_def draft_def by blast
qed
text \<open>The example evidence: the citations fall back to the \<open>doc_id\<close> and to \<open>unknown\<close>.\<close>

theorem answerer_grounded_witness:
  "retrieved_evidence (empty_state\<lparr>user_query := Some ''q'', retrieved_evidence := Some example_evidence\<rparr>)
     = Some example_evidence
   \<and> length example_evidence = 3
   \<and> citations (answerer_node
        (empty_state\<lparr>user_query := Some ''q'', retrieved_evidence := Some example_evidence\<rparr>))
       = Some [''[1] doc-1 :: Overview'', ''[2] unknown'']
   \<and> draft_answer (answerer_node
        (empty_state\<lparr>user_query := Some ''q'', retrieved_evidence := Some example_evidence\<rparr>))
       = Some (''Q: q'' @ [CHR 0x0A] @ ''A (grounded):'' @ [CHR 0x0A] @ ''- Alpha.'' @ [CHR 0x0A] @ ''- Beta.'')
   \<and> (\<exists>cites. citations (answerer_node
        (empty_state\<lparr>user_query := Some ''q'', retrieved_evidence := Some example_evidence\<rparr>))
          = Some cites \<and> length cites = min 2 (length example_evidence))"
proof -
  have h1: "retrieved_evidence (empty_state\<lparr>user_query := Some ''q'', retrieved_evidence := Some example_evidence\<rparr>)
     = Some example_evidence"
    by (simp add: empty_state_def)
  have h2: "example_evidence \<noteq> []" and l: "length example_evidence = 3"
    by (simp_all add: example_evidence_def)
  have c: "citations (answerer_node
        (empty_state\<lparr>user_query := Some ''q'', retrieved_evidence := Some example_evidence\<rparr>))
       = Some [''[1] doc-1 :: Overview'', ''[2] unknown'']"
    by code_simp
  have d: "draft_answer (answerer_node
        (empty_state\<lparr>user_query := Some ''q'', retrieved_evidence := Some example_evidence\<rparr>))
       = Some (''Q: q'' @ [CHR 0x0A] @ ''A (grounded):'' @ [CHR 0x0A] @ ''- Alpha.'' @ [CHR 0x0A] @ ''- Beta.'')"
    by code_simp
  from answerer_grounded [OF h1 h2] have
    "\<exists>cites. citations (answerer_node
        (empty_state\<lparr>user_query := Some ''q'', retrieved_evidence := Some example_evidence\<rparr>))
          = Some cites \<and> length cites = min 2 (length example_evidence)"
    by blast
  with h1 l c d show ?thesis
    by blast
qed

section \<open>The dead-letter queue's round trip\<close>









end
